theory Spec2Isabelle
  imports Main "HOL-Library.AList"
begin

section \<open>Strings, errors and results\<close>

text \<open>
  A JavaScript string is a sequence of UTF-16 code units. The mock data of the views holds
  Chinese text, so strings are lists of code units (natural numbers); \<open>js\<close> turns an
  ASCII literal of the source into that form.
\<close>

type_synonym jstring = "nat list"

definition js :: "string \<Rightarrow> jstring" where
  "js s = map of_char s"

text \<open>
  Modelled from the spec: the error taxonomy of its section on error handling. No handler
  of the console has a \<^verbatim>\<open>throw\<close>; the type is there so that "the call fails with
  this error" can be written about a handler at all.
\<close>

datatype error = ValidationError | ConflictError | NotFoundError | AuthError

text \<open>A handler either fails (\<open>Inl\<close>) or returns the state it leaves (\<open>Inr\<close>).\<close>

definition and_then :: "error + 'a \<Rightarrow> ('a \<Rightarrow> error + 'b) \<Rightarrow> error + 'b" where
  "and_then r f = (case r of Inl e \<Rightarrow> Inl e | Inr x \<Rightarrow> f x)"

section \<open>The role view (views/role/index.vue)\<close>

text \<open>
  The rows of the table, the reactive form of the add/edit dialog and the nodes of the
  permission tree, with the fields the script gives them. The fields \<^verbatim>\<open>id\<close>,
  \<^verbatim>\<open>name\<close> and \<^verbatim>\<open>description\<close> occur in several objects of the source and
  carry the object's name as a prefix here.
\<close>

record role_row =
  row_id :: int
  row_name :: jstring
  row_description :: jstring
  row_createdAt :: jstring

record role_form =
  form_id :: int
  form_name :: jstring
  form_description :: jstring

datatype perm_node =
  PermNode (node_id: int) (node_name: jstring) (node_children: "perm_node list")

text \<open>
  The component state: one field for each \<^verbatim>\<open>ref\<close> and \<^verbatim>\<open>reactive\<close> of the
  script. \<open>permissionTree\<close> is the template ref of the tree widget: \<open>None\<close> is the
  \<^verbatim>\<open>null\<close> it starts with, \<open>Some ks\<close> the mounted widget whose checked node keys
  are \<open>ks\<close>. The widget is the component library's: \<^verbatim>\<open>checkedPermissions\<close> seeds its
  checked keys when it is mounted (\<^verbatim>\<open>:default-checked-keys\<close>), the user's ticks change
  them, and the dialog, which is not destroyed on close, keeps it mounted with them. No
  statement of the script reads or writes the widget.
\<close>

record role_view =
  searchForm_name :: jstring
  tableData :: "role_row list"
  currentPage :: int
  pageSize :: int
  total :: int
  dialogVisible :: bool
  dialogType :: jstring
  form :: role_form
  permissionDialogVisible :: bool
  permissionTree :: "int list option"
  currentRoleId :: int
  permissionData :: "perm_node list"
  checkedPermissions :: "int list"

definition role_admin :: role_row where
  "role_admin = \<lparr>row_id = 1, row_name = [0x7BA1, 0x7406, 0x5458],
     row_description = [0x7CFB, 0x7EDF, 0x7BA1, 0x7406, 0x5458],
     row_createdAt = js ''2023-01-01 00:00:00''\<rparr>"

definition role_user :: role_row where
  "role_user = \<lparr>row_id = 2, row_name = [0x666E, 0x901A, 0x7528, 0x6237],
     row_description = [0x666E, 0x901A, 0x7528, 0x6237],
     row_createdAt = js ''2023-01-01 00:00:00''\<rparr>"

definition permissionData_init :: "perm_node list" where
  "permissionData_init =
    [PermNode 1 [0x7528, 0x6237, 0x7BA1, 0x7406]
       [PermNode 11 [0x67E5, 0x770B, 0x7528, 0x6237] [],
        PermNode 12 [0x521B, 0x5EFA, 0x7528, 0x6237] [],
        PermNode 13 [0x7F16, 0x8F91, 0x7528, 0x6237] [],
        PermNode 14 [0x5220, 0x9664, 0x7528, 0x6237] []],
     PermNode 2 [0x89D2, 0x8272, 0x7BA1, 0x7406]
       [PermNode 21 [0x67E5, 0x770B, 0x89D2, 0x8272] [],
        PermNode 22 [0x521B, 0x5EFA, 0x89D2, 0x8272] [],
        PermNode 23 [0x7F16, 0x8F91, 0x89D2, 0x8272] [],
        PermNode 24 [0x5220, 0x9664, 0x89D2, 0x8272] []]]"

text \<open>The state the script sets up when the view is created.\<close>

definition role_view_init :: role_view where
  "role_view_init =
    \<lparr>searchForm_name = [],
     tableData = [role_admin, role_user],
     currentPage = 1,
     pageSize = 10,
     total = 100,
     dialogVisible = False,
     dialogType = js ''add'',
     form = \<lparr>form_id = 0, form_name = [], form_description = []\<rparr>,
     permissionDialogVisible = False,
     permissionTree = None,
     currentRoleId = 0,
     permissionData = permissionData_init,
     checkedPermissions = [11, 21]\<rparr>"

subsection \<open>The handlers of the script\<close>

definition handleSearch :: "role_view \<Rightarrow> error + role_view" where
  "handleSearch s = Inr s"

definition resetSearch :: "role_view \<Rightarrow> error + role_view" where
  "resetSearch s = handleSearch (s\<lparr>searchForm_name := []\<rparr>)"

definition handleSizeChange :: "int \<Rightarrow> role_view \<Rightarrow> error + role_view" where
  "handleSizeChange val s = Inr (s\<lparr>pageSize := val\<rparr>)"

definition handleCurrentChange :: "int \<Rightarrow> role_view \<Rightarrow> error + role_view" where
  "handleCurrentChange val s = Inr (s\<lparr>currentPage := val\<rparr>)"

definition handleEdit :: "role_row \<Rightarrow> role_view \<Rightarrow> error + role_view" where
  "handleEdit row s =
     Inr (s\<lparr>dialogType := js ''edit'',
            form := (form s)\<lparr>form_id := row_id row, form_name := row_name row,
                              form_description := row_description row\<rparr>,
            dialogVisible := True\<rparr>)"

definition handleDelete :: "role_row \<Rightarrow> role_view \<Rightarrow> error + role_view" where
  "handleDelete row s = Inr s"

definition submitForm :: "role_view \<Rightarrow> error + role_view" where
  "submitForm s = Inr (s\<lparr>dialogVisible := False\<rparr>)"

definition handlePermission :: "role_row \<Rightarrow> role_view \<Rightarrow> error + role_view" where
  "handlePermission row s =
     Inr (s\<lparr>currentRoleId := row_id row, permissionDialogVisible := True\<rparr>)"

definition savePermissions :: "role_view \<Rightarrow> error + role_view" where
  "savePermissions s = Inr (s\<lparr>permissionDialogVisible := False\<rparr>)"

subsection \<open>How the console uses the handlers\<close>

text \<open>
  The ids the permission tree offers: those of the nodes of \<^verbatim>\<open>permissionData\<close>,
  groups and leaves alike (the tree's \<^verbatim>\<open>node-key\<close> is \<^verbatim>\<open>id\<close>).
\<close>

fun node_ids :: "perm_node \<Rightarrow> int list" where
  "node_ids (PermNode i n cs) = i # concat (map node_ids cs)"

definition permission_ids :: "role_view \<Rightarrow> int set" where
  "permission_ids s = set (concat (map node_ids (permissionData s)))"

text \<open>
  The permission ids the script holds for a role: \<^verbatim>\<open>handlePermission\<close> opens the
  dialog on the role, at the place where its comment would load the role's permissions,
  and \<^verbatim>\<open>checkedPermissions\<close> is the list the script hands the dialog's tree. This is
  the script's state, not the ticks of a tree that is already mounted.
\<close>

definition shown_permissions :: "role_row \<Rightarrow> role_view \<Rightarrow> error + int list" where
  "shown_permissions row s =
     and_then (handlePermission row s) (\<lambda>s1. Inr (checkedPermissions s1))"

text \<open>
  The cancel button of the permission dialog: its inline handler is
  \<^verbatim>\<open>permissionDialogVisible = false\<close>.
\<close>

definition cancelPermissions :: "role_view \<Rightarrow> role_view" where
  "cancelPermissions s = s\<lparr>permissionDialogVisible := False\<rparr>"

text \<open>
  The view after \<^verbatim>\<open>handlePermission\<close> on role 1 from the starting state, with the
  tree mounted on \<open>[11, 21]\<close> and node 12 ticked by the user as well.
\<close>

definition dialog_with_12_ticked :: role_view where
  "dialog_with_12_ticked =
     role_view_init\<lparr>permissionDialogVisible := True, permissionTree := Some [11, 12, 21],
                     currentRoleId := 1\<rparr>"

text \<open>
  Creating a role, as the page offers it: the button of the card header sets
  \<^verbatim>\<open>dialogVisible = true\<close>, the two inputs of the dialog are bound to
  \<^verbatim>\<open>form.name\<close> and \<^verbatim>\<open>form.description\<close>, the confirm button runs
  \<^verbatim>\<open>submitForm\<close>.
\<close>

definition create_role :: "jstring \<Rightarrow> jstring \<Rightarrow> role_view \<Rightarrow> error + role_view" where
  "create_role nm descr s =
     submitForm (s\<lparr>dialogVisible := True,
                    form := (form s)\<lparr>form_name := nm, form_description := descr\<rparr>\<rparr>)"

text \<open>
  Searching, as the page offers it: the input of the search form is bound to
  \<^verbatim>\<open>searchForm.name\<close>, the search button runs \<^verbatim>\<open>handleSearch\<close>, and the table
  shows \<^verbatim>\<open>tableData\<close>.
\<close>

definition search_roles :: "jstring \<Rightarrow> role_view \<Rightarrow> error + role_row list" where
  "search_roles flt s =
     and_then (handleSearch (s\<lparr>searchForm_name := flt\<rparr>)) (\<lambda>s1. Inr (tableData s1))"

subsection \<open>The listing the specification describes\<close>

text \<open>
  Modelled from the spec: \<^verbatim>\<open>listRoles(filter)\<close>, "case-insensitive substring match
  on name; paginated", written down from these words so that the table \<open>handleSearch\<close>
  leaves can be compared with it. Case is folded on the ASCII letters; an absent filter is
  the empty string, which every name contains; page \<open>p\<close> of size \<open>n\<close> holds the matches
  from position \<open>(p - 1) * n\<close> on, at most \<open>n\<close> of them.
\<close>

definition lower_unit :: "nat \<Rightarrow> nat" where
  "lower_unit c = (if 65 \<le> c \<and> c \<le> 90 then c + 32 else c)"

fun contains :: "jstring \<Rightarrow> jstring \<Rightarrow> bool" where
  "contains xs [] = (xs = [])"
| "contains xs (y # ys) = (take (length xs) (y # ys) = xs \<or> contains xs ys)"

definition name_matches :: "jstring \<Rightarrow> jstring \<Rightarrow> bool" where
  "name_matches flt nm = contains (map lower_unit flt) (map lower_unit nm)"

definition spec_listRoles :: "jstring \<Rightarrow> nat \<Rightarrow> nat \<Rightarrow> role_row list \<Rightarrow> role_row list" where
  "spec_listRoles flt page n rows =
     take n (drop ((page - 1) * n) (filter (\<lambda>r. name_matches flt (row_name r)) rows))"

section \<open>The page around the views\<close>

text \<open>
  What a handler can reach outside its component: the browser's \<^verbatim>\<open>localStorage\<close>
  (keys with their values, \<open>setItem\<close> replacing the value of a key that is there),
  the messages shown through \<^verbatim>\<open>ElMessage\<close> (kind and text), the paths given to
  \<^verbatim>\<open>router.push\<close>, and the callbacks waiting in \<^verbatim>\<open>setTimeout\<close> with their
  delays in milliseconds.
\<close>

datatype callback = LoginTimeout

type_synonym storage = "(jstring \<times> jstring) list"

definition setItem :: "jstring \<Rightarrow> jstring \<Rightarrow> storage \<Rightarrow> storage" where
  "setItem k v m = AList.update k v m"

definition getItem :: "jstring \<Rightarrow> storage \<Rightarrow> jstring option" where
  "getItem k m = map_of m k"

record page_env =
  localStorage :: storage
  messages :: "(jstring \<times> jstring) list"
  pushed :: "jstring list"
  timers :: "(nat \<times> callback) list"

text \<open>A page that has just been loaded in a browser that holds nothing for the site.\<close>

definition page_env_init :: page_env where
  "page_env_init = \<lparr>localStorage = [], messages = [], pushed = [], timers = []\<rparr>"

section \<open>The login view (views/login/index.vue)\<close>

record login_form =
  loginForm_username :: jstring
  loginForm_password :: jstring

text \<open>
  A rule object of \<^verbatim>\<open>loginRules\<close>. A rule the source writes without
  \<^verbatim>\<open>required\<close>, \<^verbatim>\<open>min\<close> or \<^verbatim>\<open>max\<close> has \<open>False\<close> or \<open>None\<close> there.
\<close>

record rule =
  rule_required :: bool
  rule_min :: "nat option"
  rule_max :: "nat option"
  rule_message :: jstring
  rule_trigger :: jstring

record login_rules =
  rules_username :: "rule list"
  rules_password :: "rule list"

definition loginRules :: login_rules where
  "loginRules =
    \<lparr>rules_username =
       [\<lparr>rule_required = True, rule_min = None, rule_max = None,
          rule_message = [0x8BF7, 0x8F93, 0x5165, 0x7528, 0x6237, 0x540D],
          rule_trigger = js ''blur''\<rparr>,
        \<lparr>rule_required = False, rule_min = Some 3, rule_max = Some 50,
          rule_message = [0x7528, 0x6237, 0x540D, 0x957F, 0x5EA6, 0x5E94, 0x5728, 51, 0x5230,
                          53, 48, 0x4E2A, 0x5B57, 0x7B26, 0x4E4B, 0x95F4],
          rule_trigger = js ''blur''\<rparr>],
     rules_password =
       [\<lparr>rule_required = True, rule_min = None, rule_max = None,
          rule_message = [0x8BF7, 0x8F93, 0x5165, 0x5BC6, 0x7801],
          rule_trigger = js ''blur''\<rparr>,
        \<lparr>rule_required = False, rule_min = Some 6, rule_max = None,
          rule_message = [0x5BC6, 0x7801, 0x957F, 0x5EA6, 0x4E0D, 0x80FD, 0x5C11, 0x4E8E, 54,
                          0x4E2A, 0x5B57, 0x7B26],
          rule_trigger = js ''blur''\<rparr>]\<rparr>"

text \<open>
  \<^verbatim>\<open>loginFormRef.value.validate\<close> is the form component's, not the repository's. It
  is taken here as the rules read: an empty value passes a rule unless the rule requires
  one; any other value passes when its length is within the rule's bounds. How the
  component measures a string is left open: \<open>len\<close> is a parameter.
\<close>

definition rule_ok :: "(jstring \<Rightarrow> nat) \<Rightarrow> rule \<Rightarrow> jstring \<Rightarrow> bool" where
  "rule_ok len r v =
     (if v = [] then rule_required r = False
      else (case rule_min r of None \<Rightarrow> True | Some m \<Rightarrow> m \<le> len v) \<and>
           (case rule_max r of None \<Rightarrow> True | Some m \<Rightarrow> len v \<le> m))"

definition validate :: "(jstring \<Rightarrow> nat) \<Rightarrow> login_rules \<Rightarrow> login_form \<Rightarrow> bool" where
  "validate len rules f =
     (list_all (\<lambda>r. rule_ok len r (loginForm_username f)) (rules_username rules) \<and>
      list_all (\<lambda>r. rule_ok len r (loginForm_password f)) (rules_password rules))"

record login_view =
  loginForm :: login_form
  loading :: bool
  rememberMe :: bool

definition login_view_init :: login_view where
  "login_view_init =
    \<lparr>loginForm = \<lparr>loginForm_username = [], loginForm_password = []\<rparr>,
     loading = False, rememberMe = False\<rparr>"

text \<open>
  \<^verbatim>\<open>handleLogin\<close> up to the point where it returns: on a valid form it sets
  \<^verbatim>\<open>loading\<close> and leaves its callback with \<^verbatim>\<open>setTimeout\<close> for 1000 ms; on an
  invalid one the callback of \<^verbatim>\<open>validate\<close> returns \<^verbatim>\<open>false\<close> and nothing is
  changed.
\<close>

definition handleLogin ::
    "(jstring \<Rightarrow> nat) \<Rightarrow> page_env \<Rightarrow> login_view \<Rightarrow> error + page_env \<times> login_view" where
  "handleLogin len e v =
     (if validate len loginRules (loginForm v)
      then Inr (e\<lparr>timers := timers e @ [(1000, LoginTimeout)]\<rparr>, v\<lparr>loading := True\<rparr>)
      else Inr (e, v))"

text \<open>The callback \<^verbatim>\<open>handleLogin\<close> gives to \<^verbatim>\<open>setTimeout\<close>.\<close>

fun loginTimeout :: "page_env \<times> login_view \<Rightarrow> page_env \<times> login_view" where
  "loginTimeout (e, v) =
     (e\<lparr>localStorage := setItem (js ''token'') (js ''mock-token'') (localStorage e),
        messages := messages e @ [(js ''success'', [0x767B, 0x5F55, 0x6210, 0x529F])],
        pushed := pushed e @ [js ''/'']\<rparr>,
      v\<lparr>loading := False\<rparr>)"

fun run_callback :: "callback \<Rightarrow> page_env \<times> login_view \<Rightarrow> page_env \<times> login_view" where
  "run_callback LoginTimeout = loginTimeout"

text \<open>
  The waiting callbacks run, in the order they were set (they all wait the same time);
  none of them sets a new one.
\<close>

fun run_timers :: "page_env \<times> login_view \<Rightarrow> page_env \<times> login_view" where
  "run_timers (e, v) = fold (\<lambda>t. run_callback (snd t)) (timers e) (e\<lparr>timers := []\<rparr>, v)"

text \<open>A click on the login button, followed through to the end of its timer.\<close>

definition login_click ::
    "(jstring \<Rightarrow> nat) \<Rightarrow> page_env \<Rightarrow> login_view \<Rightarrow> error + page_env \<times> login_view" where
  "login_click len e v = and_then (handleLogin len e v) (\<lambda>ev. Inr (run_timers ev))"

section \<open>Facts about the definitions\<close>

lemmas role_handler_defs =
  handleSearch_def resetSearch_def handleSizeChange_def handleCurrentChange_def
  handleEdit_def handleDelete_def submitForm_def handlePermission_def savePermissions_def

lemmas role_use_defs =
  shown_permissions_def create_role_def search_roles_def cancelPermissions_def and_then_def

lemma role_view_init_fields:
  "tableData role_view_init = [role_admin, role_user]"
  "checkedPermissions role_view_init = [11, 21]"
  "currentPage role_view_init = 1"
  "pageSize role_view_init = 10"
  by (simp_all add: role_view_init_def)

lemma dialog_with_12_ticked_fields:
  "checkedPermissions dialog_with_12_ticked = [11, 21]"
  "permissionTree dialog_with_12_ticked = Some [11, 12, 21]"
  "permission_ids dialog_with_12_ticked = {1, 11, 12, 13, 14, 2, 21, 22, 23, 24}"
  by (simp_all add: dialog_with_12_ticked_def permission_ids_def role_view_init_def
      permissionData_init_def)

text \<open>The state is the one \<open>handlePermission\<close> on role 1 leaves, but for the widget.\<close>

lemma dialog_with_12_ticked_reached:
  "map_sum id (\<lambda>s. s\<lparr>permissionTree := Some [11, 12, 21]\<rparr>)
     (handlePermission role_admin role_view_init) = Inr dialog_with_12_ticked"
  by (simp add: handlePermission_def dialog_with_12_ticked_def role_admin_def)

lemma admin_name: "row_name role_admin = [0x7BA1, 0x7406, 0x5458]"
  by (simp add: role_admin_def)

lemma sets_differ: "{11, 21} \<noteq> {11, 12, 21::int}"
proof
  assume "{11, 21} = {11, 12, 21::int}"
  then have "(12::int) \<in> {11, 21}" by blast
  then show False by simp
qed

lemma contains_empty: "contains [] ys"
  by (cases ys) simp_all

lemma spec_listRoles_all:
  "length rows \<le> n \<Longrightarrow> spec_listRoles [] (Suc 0) n rows = rows"
  by (simp add: spec_listRoles_def name_matches_def contains_empty)

lemma validate_loginRules:
  "validate len loginRules f \<longleftrightarrow>
     loginForm_username f \<noteq> [] \<and> 3 \<le> len (loginForm_username f) \<and>
     len (loginForm_username f) \<le> 50 \<and>
     loginForm_password f \<noteq> [] \<and> 6 \<le> len (loginForm_password f)"
  by (auto simp: validate_def loginRules_def rule_ok_def)

lemma run_callback_eq: "run_callback cb = loginTimeout"
  by (cases cb) simp

lemma setItem_twice: "setItem k v (setItem k v m) = setItem k v m"
  by (simp add: setItem_def)

lemma getItem_setItem: "getItem k (setItem k v m) = Some v"
  by (simp add: setItem_def getItem_def update_conv')

text \<open>
  Any number of waiting login callbacks, at least one, leaves the token stored, one
  message and one navigation for each of them, and \<open>loading\<close> off.
\<close>

lemma fold_timers:
  "fold (\<lambda>t. run_callback (snd t)) (t # ts) (e, v) =
     (e\<lparr>localStorage := setItem (js ''token'') (js ''mock-token'') (localStorage e),
        messages := messages e @
          replicate (Suc (length ts)) (js ''success'', [0x767B, 0x5F55, 0x6210, 0x529F]),
        pushed := pushed e @ replicate (Suc (length ts)) (js ''/'')\<rparr>,
      v\<lparr>loading := False\<rparr>)"
proof (induction ts arbitrary: t e v)
  case Nil
  show ?case by (simp add: run_callback_eq)
next
  case (Cons u ts)
  have "fold (\<lambda>t. run_callback (snd t)) (t # u # ts) (e, v) =
        fold (\<lambda>t. run_callback (snd t)) (u # ts) (loginTimeout (e, v))"
    by (simp add: run_callback_eq)
  also have "\<dots> = fold (\<lambda>t. run_callback (snd t)) (u # ts)
        (fst (loginTimeout (e, v)), snd (loginTimeout (e, v)))"
    by simp
  finally show ?case
    unfolding Cons.IH by (simp add: setItem_twice)
qed

section \<open>The role view: what the handlers do to the permissions, the roles and the table\<close>

text \<open>
  C1. The specification: for every role and every set \<open>P\<close> of existing permission ids,
  setting the role's permissions to \<open>P\<close> and reading them back gives exactly \<open>P\<close>. In the
  console \<open>savePermissions\<close> stores nothing. Amended: the save does exactly what the
  cancel button does; whatever the role and whatever is ticked, the permission ids the
  script holds for the role (\<open>checkedPermissions\<close>) are after the save what they were
  before it, and the ticks stay where they were, in the tree widget; with 11, 12 and 21
  ticked for role 1, the script still holds \<open>[11, 21]\<close>.
\<close>

theorem savePermissions_stores_nothing:
  "savePermissions s = Inr (cancelPermissions s) \<and>
   and_then (savePermissions s) (shown_permissions row) = Inr (checkedPermissions s) \<and>
   map_sum id permissionTree (savePermissions s) = Inr (permissionTree s) \<and>
   and_then (savePermissions dialog_with_12_ticked) (shown_permissions role_admin) =
     Inr [11, 21]"
  by (simp add: role_handler_defs role_use_defs dialog_with_12_ticked_fields)

text \<open>
  The property as the specification has it fails on its own example: 11, 12 and 21 are
  ids of the tree and are the ticked set when the save runs, and the permission ids the
  script holds for role 1 after the save are not \<open>{11, 12, 21}\<close>.
\<close>

theorem saved_permissions_not_stored:
  "permissionTree dialog_with_12_ticked = Some [11, 12, 21] \<and>
   set [11, 12, 21] \<subseteq> permission_ids dialog_with_12_ticked \<and>
   map_sum id set (and_then (savePermissions dialog_with_12_ticked)
     (shown_permissions role_admin)) \<noteq> Inr {11, 12, 21}"
proof -
  have "map_sum id set (and_then (savePermissions dialog_with_12_ticked)
     (shown_permissions role_admin)) \<noteq> Inr {11, 12, 21}"
    using sets_differ
    by (simp add: role_handler_defs role_use_defs dialog_with_12_ticked_fields)
  then show ?thesis
    by (simp add: dialog_with_12_ticked_fields)
qed

text \<open>
  C3. The specification: after a role is deleted, no role-permission row and no user-role
  row of it remains. In the console \<open>handleDelete\<close> removes nothing. Amended: after
  \<open>handleDelete\<close> on a row of the table, the row is still in the table and the
  permission ids the script holds for the role's dialog are the ones it held before. (The
  console holds no user-role rows at all: a row of the user table has no role.)
\<close>

theorem handleDelete_removes_nothing:
  "row \<in> set (tableData s) \<Longrightarrow>
   \<exists>s'. handleDelete row s = Inr s' \<and> row \<in> set (tableData s') \<and>
        shown_permissions row s' = shown_permissions row s"
  by (simp add: role_handler_defs role_use_defs)

theorem handleDelete_removes_nothing_witness:
  "role_admin \<in> set (tableData role_view_init) \<and>
   (\<exists>s'. handleDelete role_admin role_view_init = Inr s' \<and>
         role_admin \<in> set (tableData s') \<and>
         shown_permissions role_admin s' = Inr [11, 21])"
  using handleDelete_removes_nothing [of role_admin role_view_init]
  by (simp add: role_handler_defs role_use_defs role_view_init_fields)

text \<open>
  After the deletion of role 1 from the starting state, the role is still in the table
  and its permissions are not empty.
\<close>

theorem handleDelete_rows_remain:
  "map_sum id tableData (handleDelete role_admin role_view_init) = Inr [role_admin, role_user] \<and>
   and_then (handleDelete role_admin role_view_init) (shown_permissions role_admin) \<noteq> Inr []"
  by (simp add: role_handler_defs role_use_defs role_view_init_fields)

text \<open>
  C4. The specification: creating a role under a name that exists fails with
  \<open>ConflictError\<close> and leaves the existing role as it is. The console compares no names.
  Amended: when a row of the table has the name entered, \<open>submitForm\<close> still returns
  without an error and closes the dialog; the table, and with it the existing role, is
  unchanged, and no role is added.
\<close>

theorem submitForm_duplicate_name_no_error:
  "\<exists>r\<in>set (tableData s). row_name r = nm \<Longrightarrow>
   \<exists>s'. create_role nm descr s = Inr s' \<and> tableData s' = tableData s \<and>
        dialogVisible s' = False"
  by (simp add: role_handler_defs role_use_defs)

theorem submitForm_duplicate_name_no_error_witness:
  "(\<exists>r\<in>set (tableData role_view_init). row_name r = [0x7BA1, 0x7406, 0x5458]) \<and>
   (\<exists>s'. create_role [0x7BA1, 0x7406, 0x5458] (js ''again'') role_view_init = Inr s' \<and>
         tableData s' = [role_admin, role_user] \<and> dialogVisible s' = False)"
  using submitForm_duplicate_name_no_error
    [of role_view_init "[0x7BA1, 0x7406, 0x5458]" "js ''again''"]
  by (simp add: role_handler_defs role_use_defs role_view_init_fields admin_name)

text \<open>Role 1 has the name entered, and creating a role under it is no \<open>ConflictError\<close>.\<close>

theorem create_role_duplicate_counterexample:
  "row_name role_admin = [0x7BA1, 0x7406, 0x5458] \<and>
   role_admin \<in> set (tableData role_view_init) \<and>
   create_role [0x7BA1, 0x7406, 0x5458] (js ''again'') role_view_init \<noteq> Inl ConflictError"
  by (simp add: role_handler_defs role_use_defs role_view_init_fields admin_name)

text \<open>
  C7. The specification: the listing returns exactly the roles whose name contains the
  filter, case ignored, as a page. In the console \<open>handleSearch\<close> applies no filter.
  Amended: whatever the filter, the table after a search holds the rows it held before;
  this is the page the specification describes when the filter is empty and the rows fit
  on the first page.
\<close>

theorem handleSearch_applies_no_filter:
  "search_roles flt s = Inr (tableData s) \<and>
   (flt = [] \<and> currentPage s = 1 \<and> int (length (tableData s)) \<le> pageSize s \<longrightarrow>
      search_roles flt s =
        Inr (spec_listRoles flt (nat (currentPage s)) (nat (pageSize s)) (tableData s)))"
  by (auto simp: role_handler_defs role_use_defs spec_listRoles_all)

theorem handleSearch_applies_no_filter_witness:
  "currentPage role_view_init = 1 \<and>
   int (length (tableData role_view_init)) \<le> pageSize role_view_init \<and>
   search_roles [] role_view_init = Inr [role_admin, role_user] \<and>
   search_roles [] role_view_init =
     Inr (spec_listRoles [] (nat (currentPage role_view_init)) (nat (pageSize role_view_init))
            (tableData role_view_init))"
  using handleSearch_applies_no_filter [of "[]" role_view_init]
  by (auto simp: role_view_init_fields)

text \<open>
  With the name of role 1 as the filter, the table after the search still holds role 2,
  whose name does not contain it.
\<close>

theorem handleSearch_filter_counterexample:
  "search_roles [0x7BA1, 0x7406, 0x5458] role_view_init \<noteq>
     Inr (spec_listRoles [0x7BA1, 0x7406, 0x5458] 1 10 (tableData role_view_init))"
  by (simp add: role_handler_defs role_use_defs role_view_init_fields spec_listRoles_def
      name_matches_def role_admin_def role_user_def lower_unit_def)

text \<open>
  C10. In the role view as shipped, \<open>handleDelete\<close> leaves the whole component state as
  it is, so the row passed to it is still in the table; \<open>savePermissions\<close> changes
  nothing but \<open>permissionDialogVisible\<close>, which it sets to false: \<open>tableData\<close>,
  \<open>checkedPermissions\<close> and \<open>currentRoleId\<close> are the same before and after either call.
\<close>

theorem handleDelete_savePermissions_frame:
  "row \<in> set (tableData s) \<Longrightarrow>
   (\<exists>s'. handleDelete row s = Inr s' \<and> s' = s \<and> row \<in> set (tableData s')) \<and>
   (\<exists>s'. savePermissions s = Inr s' \<and> s' = s\<lparr>permissionDialogVisible := False\<rparr> \<and>
         tableData s' = tableData s \<and> checkedPermissions s' = checkedPermissions s \<and>
         currentRoleId s' = currentRoleId s)"
  by (simp add: role_handler_defs)

theorem handleDelete_savePermissions_frame_witness:
  "role_user \<in> set (tableData role_view_init) \<and>
   handleDelete role_user role_view_init = Inr role_view_init \<and>
   savePermissions role_view_init = Inr (role_view_init\<lparr>permissionDialogVisible := False\<rparr>) \<and>
   map_sum id checkedPermissions (savePermissions role_view_init) = Inr [11, 21]"
  using handleDelete_savePermissions_frame [of role_user role_view_init]
  by (auto simp: role_view_init_fields)

section \<open>The login view: every valid form logs in\<close>

text \<open>
  C9. Any two forms that both pass the rules of \<open>loginRules\<close> (by
  \<open>validate_loginRules\<close>: a user name of 3 to 50 and a password of at least 6, whatever
  the form component's measure of length) are treated alike by \<open>handleLogin\<close>: once its
  timer has run, the page is the same for both, the literal \<open>mock-token\<close> is stored
  under \<open>token\<close> in \<open>localStorage\<close>, the last message is the success message, the last
  navigation is to \<open>/\<close>, and the view differs from the one before the click in nothing
  but the form entered and \<open>loading\<close>, which is off again.
\<close>

theorem handleLogin_ignores_credentials:
  assumes "validate len loginRules f1" and "validate len loginRules f2"
  shows "\<exists>e'. login_click len e (v\<lparr>loginForm := f1\<rparr>) =
                Inr (e', v\<lparr>loginForm := f1, loading := False\<rparr>) \<and>
              login_click len e (v\<lparr>loginForm := f2\<rparr>) =
                Inr (e', v\<lparr>loginForm := f2, loading := False\<rparr>) \<and>
              getItem (js ''token'') (localStorage e') = Some (js ''mock-token'') \<and>
              messages e' \<noteq> [] \<and>
              last (messages e') = (js ''success'', [0x767B, 0x5F55, 0x6210, 0x529F]) \<and>
              pushed e' \<noteq> [] \<and> last (pushed e') = js ''/'' \<and>
              timers e' = []"
proof -
  obtain t ts where ts: "timers e @ [(1000, LoginTimeout)] = t # ts"
    by (cases "timers e") auto
  have click: "login_click len e (v\<lparr>loginForm := f\<rparr>) =
      Inr (e\<lparr>timers := [],
             localStorage := setItem (js ''token'') (js ''mock-token'') (localStorage e),
             messages := messages e @
               replicate (Suc (length ts)) (js ''success'', [0x767B, 0x5F55, 0x6210, 0x529F]),
             pushed := pushed e @ replicate (Suc (length ts)) (js ''/'')\<rparr>,
           v\<lparr>loginForm := f, loading := False\<rparr>)"
    if "validate len loginRules f" for f
    using that
    by (simp add: login_click_def handleLogin_def and_then_def ts fold_timers
          del: fold.simps)
  show ?thesis
    using click [OF assms(1)] click [OF assms(2)] by (simp add: getItem_setItem)
qed

theorem handleLogin_ignores_credentials_witness:
  "validate length loginRules
     \<lparr>loginForm_username = js ''alice'', loginForm_password = js ''secret1''\<rparr> \<and>
   validate length loginRules
     \<lparr>loginForm_username = js ''bob'', loginForm_password = js ''hunter22''\<rparr> \<and>
   (\<exists>e'. login_click length page_env_init
            (login_view_init\<lparr>loginForm :=
               \<lparr>loginForm_username = js ''alice'', loginForm_password = js ''secret1''\<rparr>\<rparr>) =
          Inr (e', login_view_init\<lparr>loginForm :=
               \<lparr>loginForm_username = js ''alice'', loginForm_password = js ''secret1''\<rparr>,
               loading := False\<rparr>) \<and>
        login_click length page_env_init
            (login_view_init\<lparr>loginForm :=
               \<lparr>loginForm_username = js ''bob'', loginForm_password = js ''hunter22''\<rparr>\<rparr>) =
          Inr (e', login_view_init\<lparr>loginForm :=
               \<lparr>loginForm_username = js ''bob'', loginForm_password = js ''hunter22''\<rparr>,
               loading := False\<rparr>) \<and>
        getItem (js ''token'') (localStorage e') = Some (js ''mock-token'') \<and>
        messages e' \<noteq> [] \<and>
        last (messages e') = (js ''success'', [0x767B, 0x5F55, 0x6210, 0x529F]) \<and>
        pushed e' \<noteq> [] \<and> last (pushed e') = js ''/'' \<and>
        timers e' = [])"
proof -
  have a: "validate length loginRules
     \<lparr>loginForm_username = js ''alice'', loginForm_password = js ''secret1''\<rparr>"
    by (simp add: validate_loginRules js_def)
  have b: "validate length loginRules
     \<lparr>loginForm_username = js ''bob'', loginForm_password = js ''hunter22''\<rparr>"
    by (simp add: validate_loginRules js_def)
  show ?thesis
    using a b handleLogin_ignores_credentials [OF a b, of page_env_init login_view_init]
    by blast
qed

end
